theory Spec2Isabelle
  imports Complex_Main "HOL-Library.Word"
begin

section \<open>Native handles\<close>

text \<open>
  \<^verbatim>\<open>include/Avf.h\<close> only ever stores, copies and returns the native objects
  (\<^verbatim>\<open>AVPlayer*\<close>, \<^verbatim>\<open>AVPlayerItemOutput*\<close>, \<^verbatim>\<open>MovieBase*\<close>, ...). A pointer is
  modelled by its address; address \<open>0\<close> is the null pointer, as in the default argument
  \<^verbatim>\<open>MovieBase* parent = 0\<close>.
\<close>

type_synonym addr = nat

definition nullptr :: addr where
  "nullptr = 0"

section \<open>MovieBase\<close>

text \<open>
  The data members of \<^verbatim>\<open>class MovieBase\<close>, in the order of the header:
  \<^verbatim>\<open>
  int32_t                   mWidth, mHeight;
  int32_t                   mFrameCount;
  float                     mFrameRate;
  float                     mDuration;
  bool                      mLoaded, mPlayThroughOk, mPlayable, mProtected;
  bool                      mPlayingForward, mLoop, mPalindrome;
  bool                      mHasAudio, mHasVideo;
  bool                      mPlaying;
  AVPlayer*                 mPlayer;
  AVPlayerItem*             mPlayerItem;
  AVURLAsset*               mAsset;
  AVPlayerItemVideoOutput*  mPlayerVideoOutput;
  std::mutex                mMutex;
  signals::signal<void()>   mSignalNewFrame, mSignalReady, mSignalCancelled, mSignalEnded,
                            mSignalJumped, mSignalOutputWasFlushed;
  MovieResponder*           mResponder;
  MovieDelegate*            mPlayerDelegate;
  \<close>
  The type of \<^verbatim>\<open>float\<close> values and the type of signals are the parameters \<open>'f\<close>
  and \<open>'sig\<close>: no function modelled here reads a float member or a signal. The mutex is
  the flag "held". A derived class is a record extension, and the member functions of
  \<^verbatim>\<open>MovieBase\<close> are defined on every extension of the record.
\<close>

record ('f, 'sig) MovieBase =
  mWidth :: "32 word"
  mHeight :: "32 word"
  mFrameCount :: "32 word"
  mFrameRate :: 'f
  mDuration :: 'f
  mLoaded :: bool
  mPlayThroughOk :: bool
  mPlayable :: bool
  mProtected :: bool
  mPlayingForward :: bool
  mLoop :: bool
  mPalindrome :: bool
  mHasAudio :: bool
  mHasVideo :: bool
  mPlaying :: bool
  mPlayer :: addr
  mPlayerItem :: addr
  mAsset :: addr
  mPlayerVideoOutput :: addr
  mMutex :: bool
  mSignalNewFrame :: 'sig
  mSignalReady :: 'sig
  mSignalCancelled :: 'sig
  mSignalEnded :: 'sig
  mSignalJumped :: 'sig
  mSignalOutputWasFlushed :: 'sig
  mResponder :: addr
  mPlayerDelegate :: addr

text \<open>
  \<^verbatim>\<open>AVPlayer* getPlayerHandle() const { return mPlayer; }\<close>

  A member function is a function of the object that returns its result together with
  the object as the call leaves it.
\<close>

definition getPlayerHandle ::
  "('f, 'sig, 'z) MovieBase_scheme \<Rightarrow> addr \<times> ('f, 'sig, 'z) MovieBase_scheme" where
  "getPlayerHandle this = (MovieBase.mPlayer this, this)"




section \<open>MovieSurface\<close>

text \<open>
  \<^verbatim>\<open>class MovieSurface : public MovieBase\<close> adds the member \<^verbatim>\<open>Surface mSurface\<close>;
  the type of surfaces is the parameter \<open>'srf\<close>.
\<close>

record ('f, 'sig, 'srf) MovieSurface = "('f, 'sig) MovieBase" +
  mSurface :: 'srf

text \<open>
  \<^verbatim>\<open>
  virtual void allocateVisualContext() { /* no-op */ }
  virtual void deallocateVisualContext() { /* no-op */ }
  \<close>
  Both bodies are empty. \<open>'w\<close> is the rest of the program's state: the function
  returns the object and that state as the call leaves them.
\<close>

definition allocateVisualContext ::
  "('f, 'sig, 'srf) MovieSurface \<Rightarrow> 'w \<Rightarrow> ('f, 'sig, 'srf) MovieSurface \<times> 'w" where
  "allocateVisualContext this w = (this, w)"

definition deallocateVisualContext ::
  "('f, 'sig, 'srf) MovieSurface \<Rightarrow> 'w \<Rightarrow> ('f, 'sig, 'srf) MovieSurface \<times> 'w" where
  "deallocateVisualContext this w = (this, w)"

section \<open>MovieResponder\<close>

text \<open>
  The internal callbacks of \<^verbatim>\<open>MovieBase\<close> that the responder calls are declared in
  the header and defined elsewhere:
  \<^verbatim>\<open>
  void updateFrame();
  void playerReady();
  void playerItemEnded();
  void playerItemCancelled();
  void playerItemJumped();
  void outputWasFlushed(AVPlayerItemOutput* output);
  \<close>
  They are parameters of the model: each is a function of the address of the movie it
  is called on (\<^verbatim>\<open>this\<close>) and of the program state \<open>'w\<close>, which holds the movie.
\<close>

record 'w MovieBase_internal =
  updateFrame :: "addr \<Rightarrow> 'w \<Rightarrow> 'w"
  playerReady :: "addr \<Rightarrow> 'w \<Rightarrow> 'w"
  playerItemEnded :: "addr \<Rightarrow> 'w \<Rightarrow> 'w"
  playerItemCancelled :: "addr \<Rightarrow> 'w \<Rightarrow> 'w"
  playerItemJumped :: "addr \<Rightarrow> 'w \<Rightarrow> 'w"
  outputWasFlushed :: "addr \<Rightarrow> addr \<Rightarrow> 'w \<Rightarrow> 'w"

text \<open>
  Calling a member function through a null pointer has no defined behaviour; the model
  makes it the fault \<open>NullDereference\<close>. \<open>arrow p f\<close> is the call \<^verbatim>\<open>p->f()\<close>.
\<close>

datatype fault = NullDereference

definition arrow :: "addr \<Rightarrow> (addr \<Rightarrow> 'w \<Rightarrow> 'w) \<Rightarrow> 'w \<Rightarrow> fault + 'w" where
  "arrow p f w = (if p = nullptr then Inl NullDereference else Inr (f p w))"

text \<open>The only data member: \<^verbatim>\<open>MovieBase* const mParent;\<close>\<close>

record MovieResponder =
  mParent :: addr

text \<open>
  \<^verbatim>\<open>MovieResponder(MovieBase* parent = 0) : mParent(parent) {}\<close>

  The argument is optional: \<open>None\<close> is the call that leaves it out.
\<close>

definition MovieResponder_ctor :: "addr option \<Rightarrow> MovieResponder" where
  "MovieResponder_ctor parent =
     \<lparr>mParent = (case parent of None \<Rightarrow> 0 | Some p \<Rightarrow> p)\<rparr>"

text \<open>
  \<^verbatim>\<open>
  void playerReadyCallback() { mParent->playerReady(); }
  void playerItemDidReachEndCallback() { mParent->playerItemEnded(); }
  void playerItemDidNotReachEndCallback() { mParent->playerItemCancelled(); }
  void playerItemTimeJumpedCallback() { mParent->playerItemJumped(); }
  void outputSequenceWasFlushedCallback(AVPlayerItemOutput* output) { mParent->outputWasFlushed(output); }
  void playerUpdateFrame() { mParent->updateFrame(); }
  \<close>
  Each callback returns the responder and the program state as the call leaves them,
  or the fault of the call through \<^verbatim>\<open>mParent\<close>.
\<close>

definition returning :: "'a \<Rightarrow> fault + 'w \<Rightarrow> fault + ('a \<times> 'w)" where
  "returning this r = (case r of Inl e \<Rightarrow> Inl e | Inr w \<Rightarrow> Inr (this, w))"

definition playerReadyCallback ::
  "'w MovieBase_internal \<Rightarrow> MovieResponder \<Rightarrow> 'w \<Rightarrow> fault + (MovieResponder \<times> 'w)" where
  "playerReadyCallback M this w = returning this (arrow (mParent this) (playerReady M) w)"

definition playerItemDidReachEndCallback ::
  "'w MovieBase_internal \<Rightarrow> MovieResponder \<Rightarrow> 'w \<Rightarrow> fault + (MovieResponder \<times> 'w)" where
  "playerItemDidReachEndCallback M this w =
     returning this (arrow (mParent this) (playerItemEnded M) w)"

definition playerItemDidNotReachEndCallback ::
  "'w MovieBase_internal \<Rightarrow> MovieResponder \<Rightarrow> 'w \<Rightarrow> fault + (MovieResponder \<times> 'w)" where
  "playerItemDidNotReachEndCallback M this w =
     returning this (arrow (mParent this) (playerItemCancelled M) w)"

definition playerItemTimeJumpedCallback ::
  "'w MovieBase_internal \<Rightarrow> MovieResponder \<Rightarrow> 'w \<Rightarrow> fault + (MovieResponder \<times> 'w)" where
  "playerItemTimeJumpedCallback M this w =
     returning this (arrow (mParent this) (playerItemJumped M) w)"

definition outputSequenceWasFlushedCallback ::
  "'w MovieBase_internal \<Rightarrow> MovieResponder \<Rightarrow> addr \<Rightarrow> 'w \<Rightarrow> fault + (MovieResponder \<times> 'w)" where
  "outputSequenceWasFlushedCallback M this output w =
     returning this (arrow (mParent this) (\<lambda>p. outputWasFlushed M p output) w)"

definition playerUpdateFrame ::
  "'w MovieBase_internal \<Rightarrow> MovieResponder \<Rightarrow> 'w \<Rightarrow> fault + (MovieResponder \<times> 'w)" where
  "playerUpdateFrame M this w = returning this (arrow (mParent this) (updateFrame M) w)"

section \<open>MovieLoader\<close>

text \<open>
  The data members of \<^verbatim>\<open>class MovieLoader\<close>:
  \<^verbatim>\<open>
  AVPlayer*     mPlayer;
  Url           mUrl;
  mutable bool  mLoaded, mBufferFull, mBufferEmpty, mPlayable, mProtected, mPlayThroughOK, mOwnsMovie;
  \<close>
  These members are declared after those of \<^verbatim>\<open>MovieBase\<close>: from here on
  \<open>mPlayer\<close>, \<open>mLoaded\<close>, \<open>mPlayable\<close> and \<open>mProtected\<close> are the loader's, and
  the movie's are written \<open>MovieBase.mPlayer\<close> and so on.
\<close>

record MovieLoader =
  mPlayer :: addr
  mUrl :: string
  mLoaded :: bool
  mBufferFull :: bool
  mBufferEmpty :: bool
  mPlayable :: bool
  mProtected :: bool
  mPlayThroughOK :: bool
  mOwnsMovie :: bool

text \<open>
  \<^verbatim>\<open>bool ownsMovie() const { return mOwnsMovie; }\<close>

  The three accessors below are the observers of the loader's state; they return their
  result only.
\<close>

definition ownsMovie :: "MovieLoader \<Rightarrow> bool" where
  "ownsMovie l = mOwnsMovie l"

text \<open>\<^verbatim>\<open>const Url& getUrl() const { return mUrl; }\<close>\<close>

definition getUrl :: "MovieLoader \<Rightarrow> string" where
  "getUrl l = mUrl l"

text \<open>\<^verbatim>\<open>const AVPlayer* getMovieHandle() const { return mPlayer; }\<close>\<close>

definition getMovieHandle :: "MovieLoader \<Rightarrow> addr" where
  "getMovieHandle l = mPlayer l"

text \<open>
  \<^verbatim>\<open>AVPlayer* transferMovieHandle() const { mOwnsMovie = false; return mPlayer; }\<close>

  The function is \<^verbatim>\<open>const\<close>, but \<^verbatim>\<open>mOwnsMovie\<close> is \<^verbatim>\<open>mutable\<close>: the loader
  afterwards is part of the result.
\<close>

definition transferMovieHandle :: "MovieLoader \<Rightarrow> addr \<times> MovieLoader" where
  "transferMovieHandle l = (mPlayer l, l\<lparr>mOwnsMovie := False\<rparr>)"

section \<open>Exceptions\<close>

text \<open>
  \<^verbatim>\<open>
  class AvfExc : public std::exception {};
  class AvfPathInvalidExc : public AvfExc {};
  class AvfFileInvalidExc : public AvfExc {};
  class AvfUrlInvalidExc : public AvfExc {};
  class AvfErrorLoadingExc : public AvfExc {};
  class AvfTextureErrorExc : public AvfExc {};
  \<close>
  \<open>exc_classes\<close> lists the exception classes that the header declares or names, in its
  order; \<open>direct_base\<close> is the base that each declaration names.
\<close>

datatype exc_class =
    std_exception
  | AvfExc
  | AvfPathInvalidExc
  | AvfFileInvalidExc
  | AvfUrlInvalidExc
  | AvfErrorLoadingExc
  | AvfTextureErrorExc

definition exc_classes :: "exc_class list" where
  "exc_classes = [std_exception, AvfExc, AvfPathInvalidExc, AvfFileInvalidExc,
     AvfUrlInvalidExc, AvfErrorLoadingExc, AvfTextureErrorExc]"

fun direct_base :: "exc_class \<Rightarrow> exc_class option" where
  "direct_base std_exception = None"
| "direct_base AvfExc = Some std_exception"
| "direct_base AvfPathInvalidExc = Some AvfExc"
| "direct_base AvfFileInvalidExc = Some AvfExc"
| "direct_base AvfUrlInvalidExc = Some AvfExc"
| "direct_base AvfErrorLoadingExc = Some AvfExc"
| "direct_base AvfTextureErrorExc = Some AvfExc"

text \<open>
  \<open>bases n c\<close> is the class \<open>c\<close> followed by its chain of bases, at most \<open>n\<close> of
  them. A chain without repetition is no longer than the list of classes, so
  \<open>length exc_classes\<close> steps reach every base.
\<close>

fun bases :: "nat \<Rightarrow> exc_class \<Rightarrow> exc_class list" where
  "bases 0 c = [c]"
| "bases (Suc n) c = c # (case direct_base c of None \<Rightarrow> [] | Some b \<Rightarrow> bases n b)"

definition derives_from :: "exc_class \<Rightarrow> exc_class \<Rightarrow> bool" where
  "derives_from c b = (b \<in> set (bases (length exc_classes) c))"

text \<open>
  A handler \<^verbatim>\<open>catch (const H&)\<close> catches a thrown object of class \<open>c\<close> when \<open>c\<close> is
  \<open>H\<close> or derives from it (all the bases above are public and unambiguous).
\<close>

definition catchable_as :: "exc_class \<Rightarrow> exc_class \<Rightarrow> bool" where
  "catchable_as c handler = derives_from c handler"

text \<open>The error surface: the classes of the header whose direct base is \<^verbatim>\<open>AvfExc\<close>.\<close>

definition error_surface :: "exc_class list" where
  "error_surface = filter (\<lambda>c. direct_base c = Some AvfExc) exc_classes"

section \<open>Instances for evaluation\<close>



subsection \<open>A recording movie\<close>

text \<open>
  An instance of the internal callbacks for running the responder on concrete inputs:
  the program state is the log of the calls made so far, each with the address it was
  made on, and every callback appends its own name (and \<^verbatim>\<open>outputWasFlushed\<close> its
  argument).
\<close>

definition logged :: "(addr \<times> string) list MovieBase_internal" where
  "logged = \<lparr>updateFrame = (\<lambda>p w. w @ [(p, ''updateFrame'')]),
     playerReady = (\<lambda>p w. w @ [(p, ''playerReady'')]),
     playerItemEnded = (\<lambda>p w. w @ [(p, ''playerItemEnded'')]),
     playerItemCancelled = (\<lambda>p w. w @ [(p, ''playerItemCancelled'')]),
     playerItemJumped = (\<lambda>p w. w @ [(p, ''playerItemJumped'')]),
     outputWasFlushed = (\<lambda>p output w. w @ [(p, ''outputWasFlushed''), (output, ''output'')])\<rparr>"

section \<open>Properties\<close>

subsection \<open>MovieLoader\<close>


text \<open>
  C1. After \<^verbatim>\<open>transferMovieHandle()\<close> the loader's \<^verbatim>\<open>ownsMovie()\<close> is false and the
  pointer returned is the loader's player handle, the one \<^verbatim>\<open>getMovieHandle()\<close> returns
  before and after the call. A second call returns the same pointer and leaves the loader
  exactly as the first call left it. The first call changes \<^verbatim>\<open>mOwnsMovie\<close> and no other
  member.
\<close>

theorem transferMovieHandle_idempotent:
  "ownsMovie (snd (transferMovieHandle l)) = False
   \<and> fst (transferMovieHandle l) = getMovieHandle l
   \<and> fst (transferMovieHandle l) = getMovieHandle (snd (transferMovieHandle l))
   \<and> transferMovieHandle (snd (transferMovieHandle l))
       = (fst (transferMovieHandle l), snd (transferMovieHandle l))
   \<and> snd (transferMovieHandle l) = l\<lparr>mOwnsMovie := False\<rparr>
   \<and> getUrl (snd (transferMovieHandle l)) = getUrl l
   \<and> mLoaded (snd (transferMovieHandle l)) = mLoaded l
   \<and> mBufferFull (snd (transferMovieHandle l)) = mBufferFull l
   \<and> mBufferEmpty (snd (transferMovieHandle l)) = mBufferEmpty l
   \<and> mPlayable (snd (transferMovieHandle l)) = mPlayable l
   \<and> mProtected (snd (transferMovieHandle l)) = mProtected l
   \<and> mPlayThroughOK (snd (transferMovieHandle l)) = mPlayThroughOK l"
  by (simp add: transferMovieHandle_def ownsMovie_def getMovieHandle_def getUrl_def)

subsection \<open>MovieBase and MovieSurface\<close>

text \<open>
  C7. \<^verbatim>\<open>getPlayerHandle()\<close> returns the stored native player pointer and leaves every
  member of the movie as it was. So a repeated call returns the same pointer, and whatever
  the destructor does with the movie (\<open>destroy\<close> stands for \<^verbatim>\<open>~MovieBase\<close>, whose body
  is not in the header) it does the same after the call as before: the accessor does not
  change who releases the handle.
\<close>

theorem getPlayerHandle_pure:
  "fst (getPlayerHandle this) = MovieBase.mPlayer this
   \<and> snd (getPlayerHandle this) = this
   \<and> getPlayerHandle (snd (getPlayerHandle this)) = getPlayerHandle this
   \<and> destroy (snd (getPlayerHandle this)) = destroy this"
  by (simp add: getPlayerHandle_def)

text \<open>
  C8. \<^verbatim>\<open>MovieSurface::allocateVisualContext\<close> and
  \<^verbatim>\<open>MovieSurface::deallocateVisualContext\<close> are no-ops: for every \<^verbatim>\<open>MovieSurface\<close>
  and every program state, each call leaves the object and the rest of the program state
  unchanged.
\<close>

theorem MovieSurface_visual_context_noop:
  "allocateVisualContext this w = (this, w) \<and> deallocateVisualContext this w = (this, w)"
  by (simp add: allocateVisualContext_def deallocateVisualContext_def)




subsection \<open>MovieResponder\<close>

lemmas callback_defs =
  playerReadyCallback_def playerItemDidReachEndCallback_def
  playerItemDidNotReachEndCallback_def playerItemTimeJumpedCallback_def
  outputSequenceWasFlushedCallback_def playerUpdateFrame_def

text \<open>
  C2. On a responder whose parent is not null, every callback is exactly one call of
  the corresponding internal callback of \<^verbatim>\<open>MovieBase\<close> on the parent, and nothing else:
  the program state afterwards is the one that callback returns, and the responder is
  the same. \<^verbatim>\<open>playerReadyCallback\<close> calls \<^verbatim>\<open>playerReady\<close>,
  \<^verbatim>\<open>playerItemDidReachEndCallback\<close> calls \<^verbatim>\<open>playerItemEnded\<close>,
  \<^verbatim>\<open>playerItemDidNotReachEndCallback\<close> calls \<^verbatim>\<open>playerItemCancelled\<close>,
  \<^verbatim>\<open>playerItemTimeJumpedCallback\<close> calls \<^verbatim>\<open>playerItemJumped\<close>,
  \<^verbatim>\<open>outputSequenceWasFlushedCallback\<close> calls \<^verbatim>\<open>outputWasFlushed\<close> with the same
  output, and \<^verbatim>\<open>playerUpdateFrame\<close> calls \<^verbatim>\<open>updateFrame\<close>.
\<close>

theorem MovieResponder_forwards:
  assumes "mParent this \<noteq> nullptr"
  shows "playerReadyCallback M this w = Inr (this, playerReady M (mParent this) w)
    \<and> playerItemDidReachEndCallback M this w = Inr (this, playerItemEnded M (mParent this) w)
    \<and> playerItemDidNotReachEndCallback M this w
        = Inr (this, playerItemCancelled M (mParent this) w)
    \<and> playerItemTimeJumpedCallback M this w = Inr (this, playerItemJumped M (mParent this) w)
    \<and> outputSequenceWasFlushedCallback M this output w
        = Inr (this, outputWasFlushed M (mParent this) output w)
    \<and> playerUpdateFrame M this w = Inr (this, updateFrame M (mParent this) w)"
  using assms by (simp add: callback_defs arrow_def returning_def)

theorem MovieResponder_forwards_witness:
  "mParent (MovieResponder_ctor (Some 5)) \<noteq> nullptr
   \<and> playerReadyCallback logged (MovieResponder_ctor (Some 5)) []
       = Inr (\<lparr>mParent = 5\<rparr>, [(5, ''playerReady'')])
   \<and> playerItemDidReachEndCallback logged (MovieResponder_ctor (Some 5)) []
       = Inr (\<lparr>mParent = 5\<rparr>, [(5, ''playerItemEnded'')])
   \<and> playerItemDidNotReachEndCallback logged (MovieResponder_ctor (Some 5)) []
       = Inr (\<lparr>mParent = 5\<rparr>, [(5, ''playerItemCancelled'')])
   \<and> playerItemTimeJumpedCallback logged (MovieResponder_ctor (Some 5)) []
       = Inr (\<lparr>mParent = 5\<rparr>, [(5, ''playerItemJumped'')])
   \<and> outputSequenceWasFlushedCallback logged (MovieResponder_ctor (Some 5)) 9 []
       = Inr (\<lparr>mParent = 5\<rparr>, [(5, ''outputWasFlushed''), (9, ''output'')])
   \<and> playerUpdateFrame logged (MovieResponder_ctor (Some 5)) []
       = Inr (\<lparr>mParent = 5\<rparr>, [(5, ''updateFrame'')])"
  using MovieResponder_forwards [of "MovieResponder_ctor (Some 5)" logged "[]" 9]
  by (simp add: MovieResponder_ctor_def nullptr_def logged_def)

text \<open>
  C9. No callback checks \<^verbatim>\<open>mParent\<close> before the call through it, and the
  constructor's default argument is the null pointer. So every callback of a responder
  constructed without an argument dereferences a null pointer, and for every responder a
  callback faults exactly when the parent is null: it is safe only for a responder
  constructed with a parent that is not null.
\<close>

theorem MovieResponder_null_parent:
  "playerReadyCallback M (MovieResponder_ctor None) w = Inl NullDereference
   \<and> playerItemDidReachEndCallback M (MovieResponder_ctor None) w = Inl NullDereference
   \<and> playerItemDidNotReachEndCallback M (MovieResponder_ctor None) w = Inl NullDereference
   \<and> playerItemTimeJumpedCallback M (MovieResponder_ctor None) w = Inl NullDereference
   \<and> outputSequenceWasFlushedCallback M (MovieResponder_ctor None) output w
       = Inl NullDereference
   \<and> playerUpdateFrame M (MovieResponder_ctor None) w = Inl NullDereference
   \<and> isl (playerReadyCallback M this w) = (mParent this = nullptr)
   \<and> isl (playerItemDidReachEndCallback M this w) = (mParent this = nullptr)
   \<and> isl (playerItemDidNotReachEndCallback M this w) = (mParent this = nullptr)
   \<and> isl (playerItemTimeJumpedCallback M this w) = (mParent this = nullptr)
   \<and> isl (outputSequenceWasFlushedCallback M this output w) = (mParent this = nullptr)
   \<and> isl (playerUpdateFrame M this w) = (mParent this = nullptr)"
  by (simp add: callback_defs arrow_def returning_def MovieResponder_ctor_def nullptr_def)

subsection \<open>Exceptions\<close>

text \<open>
  C6. The error surface is exactly the five classes \<^verbatim>\<open>AvfPathInvalidExc\<close>,
  \<^verbatim>\<open>AvfFileInvalidExc\<close>, \<^verbatim>\<open>AvfUrlInvalidExc\<close>, \<^verbatim>\<open>AvfErrorLoadingExc\<close> and
  \<^verbatim>\<open>AvfTextureErrorExc\<close>: a class has \<^verbatim>\<open>AvfExc\<close> as its direct base exactly when it is
  one of them. \<^verbatim>\<open>AvfExc\<close> derives from \<^verbatim>\<open>std::exception\<close>, so an error of any of the
  five classes is caught by a handler for \<^verbatim>\<open>AvfExc\<close> and by one for
  \<^verbatim>\<open>std::exception\<close>.
\<close>

theorem Avf_exception_hierarchy:
  "error_surface = [AvfPathInvalidExc, AvfFileInvalidExc, AvfUrlInvalidExc,
      AvfErrorLoadingExc, AvfTextureErrorExc]
   \<and> direct_base AvfExc = Some std_exception
   \<and> (direct_base c = Some AvfExc) = (c \<in> set error_surface)
   \<and> (c \<in> set error_surface \<longrightarrow> catchable_as c AvfExc \<and> catchable_as c std_exception)"
  by (cases c) (simp_all add: error_surface_def exc_classes_def catchable_as_def derives_from_def)

theorem Avf_exception_hierarchy_witness:
  "AvfTextureErrorExc \<in> set error_surface
   \<and> catchable_as AvfTextureErrorExc AvfExc \<and> catchable_as AvfTextureErrorExc std_exception"
  using Avf_exception_hierarchy [of AvfTextureErrorExc] by simp

end
